theory Spec2Isabelle
  imports Complex_Main
begin

section \<open>JavaScript values\<close>

text \<open>
  The errors a call can end with: \<open>TypeError\<close> is what JavaScript throws when a property
  of \<open>null\<close> is read; the other three are the error taxonomy of the specification.
\<close>

datatype error = TypeError | ConfigurationError | CompilationError | ResourceExhaustion

text \<open>
  A JavaScript Number is an IEEE 754 binary64 value: a finite value (\<open>Fin\<close>, the real it
  denotes, \<open>Fin 0\<close> being +0), negative zero, the two infinities or NaN. Every arithmetic
  operation rounds its exact result to binary64, to nearest with ties to even, so from
  binary64 operands only binary64 values arise.
\<close>

datatype number = Fin real | NegZero | PosInf | NegInf | NaN

text \<open>Rounding a real to the nearest integer, a tie to the even one.\<close>

definition round_half_even :: "real \<Rightarrow> int" where
  "round_half_even x =
     (let f = \<lfloor>x\<rfloor>; d = x - of_int f
      in if d < 1 / 2 then f else if 1 / 2 < d then f + 1 else if even f then f else f + 1)"

text \<open>
  The binary exponent of \<open>s \<ge> 1\<close>, found by binary search: with the steps 1024, 512,
  ..., 1 the result is the greatest \<open>e \<le> 2047\<close> with \<open>2 ^ e \<le> s\<close>.
\<close>

fun floor_log2 :: "nat list \<Rightarrow> real \<Rightarrow> nat" where
  "floor_log2 [] s = 0"
| "floor_log2 (k # ks) s =
     (if 2 ^ k \<le> s then k + floor_log2 ks (s / 2 ^ k) else floor_log2 ks s)"

declare floor_log2.simps [simp del]

text \<open>What the search has to find: the exponent \<open>e\<close> with \<open>2 ^ e \<le> s < 2 ^ (e + 1)\<close>.\<close>

definition log_ok :: "nat list \<Rightarrow> real \<Rightarrow> bool" where
  "log_ok ks s = (2 ^ floor_log2 ks s \<le> s \<and> s < 2 ^ (floor_log2 ks s + 1))"

text \<open>
  The binary64 value of a sign and an exact magnitude \<open>a \<ge> 0\<close>. The magnitude is scaled
  so that the normal range starts at 1; \<open>ulp\<close> is the spacing of binary64 values around
  it (\<open>2 ^ -1074\<close> in the subnormal range); the magnitude is rounded to a multiple of
  \<open>ulp\<close>; a result of \<open>2 ^ 1024\<close> or more is an infinity, a result of zero keeps the sign.
\<close>

definition round64 :: "bool \<Rightarrow> real \<Rightarrow> number" where
  "round64 neg a =
     (let s = a * 2 ^ 1022;
          e = (if s < 1 then 0 else floor_log2 [1024, 512, 256, 128, 64, 32, 16, 8, 4, 2, 1] s);
          ulp = 2 ^ e / 2 ^ 1074;
          v = of_int (round_half_even (a / ulp)) * ulp
      in if 2 ^ 1024 \<le> v then (if neg then NegInf else PosInf)
         else if v = 0 then (if neg then NegZero else Fin 0)
         else Fin (if neg then - v else v))"

text \<open>The sign bit of a Number, and the magnitude of a finite one.\<close>

fun negative :: "number \<Rightarrow> bool" where
  "negative (Fin a) = (a < 0)"
| "negative NegZero = True"
| "negative PosInf = False"
| "negative NegInf = True"
| "negative NaN = False"

fun magnitude :: "number \<Rightarrow> real option" where
  "magnitude (Fin a) = Some \<bar>a\<bar>"
| "magnitude NegZero = Some 0"
| "magnitude PosInf = None"
| "magnitude NegInf = None"
| "magnitude NaN = None"

definition infinity :: "bool \<Rightarrow> number" where
  "infinity neg = (if neg then NegInf else PosInf)"

definition zero :: "bool \<Rightarrow> number" where
  "zero neg = (if neg then NegZero else Fin 0)"

text \<open>
  The operator \<open>*\<close>: NaN when an operand is NaN or when zero meets an infinity; otherwise
  the sign is the exclusive or of the signs, and a finite product is rounded.
\<close>

definition js_mul :: "number \<Rightarrow> number \<Rightarrow> number" where
  "js_mul x y =
     (let neg = (negative x \<noteq> negative y)
      in if x = NaN \<or> y = NaN then NaN
         else case (magnitude x, magnitude y) of
           (Some a, Some b) \<Rightarrow> round64 neg (a * b)
         | (Some a, None) \<Rightarrow> (if a = 0 then NaN else infinity neg)
         | (None, Some b) \<Rightarrow> (if b = 0 then NaN else infinity neg)
         | (None, None) \<Rightarrow> infinity neg)"

text \<open>
  The operator \<open>/\<close>: NaN when an operand is NaN, for zero by zero and for an infinity by
  an infinity; a nonzero value by zero is an infinity (\<open>1 / 0\<close> is \<open>Infinity\<close>, \<open>1 / -0\<close> is
  \<open>-Infinity\<close>, never an error); a finite quotient is rounded.
\<close>

definition js_div :: "number \<Rightarrow> number \<Rightarrow> number" where
  "js_div x y =
     (let neg = (negative x \<noteq> negative y)
      in if x = NaN \<or> y = NaN then NaN
         else case (magnitude x, magnitude y) of
           (Some a, Some b) \<Rightarrow>
             (if b = 0 then (if a = 0 then NaN else infinity neg) else round64 neg (a / b))
         | (Some a, None) \<Rightarrow> zero neg
         | (None, Some b) \<Rightarrow> infinity neg
         | (None, None) \<Rightarrow> NaN)"

text \<open>The comparisons \<open>0 < v\<close> and \<open>v \<le> 0\<close> of JavaScript (both false on NaN).\<close>

fun js_positive :: "number \<Rightarrow> bool" where
  "js_positive (Fin a) = (0 < a)"
| "js_positive NegZero = False"
| "js_positive PosInf = True"
| "js_positive NegInf = False"
| "js_positive NaN = False"

fun js_nonpositive :: "number \<Rightarrow> bool" where
  "js_nonpositive (Fin a) = (a \<le> 0)"
| "js_nonpositive NegZero = True"
| "js_nonpositive PosInf = False"
| "js_nonpositive NegInf = True"
| "js_nonpositive NaN = False"

text \<open>
  The sizes from \<open>2 ^ -1022\<close> to \<open>2 ^ 1021\<close>: their reciprocal and half of it are normal
  binary64 numbers (no overflow, no gradual underflow).
\<close>

fun moderate :: "number \<Rightarrow> bool" where
  "moderate (Fin a) = (1 / 2 ^ 1022 \<le> a \<and> a \<le> 2 ^ 1021)"
| "moderate NegZero = False"
| "moderate PosInf = False"
| "moderate NegInf = False"
| "moderate NaN = False"

text \<open>
  \<open>Number.prototype.toFixed(0)\<close> on the value of an enumeration member, a natural
  number: its decimal digits.
\<close>

definition digit :: "nat \<Rightarrow> char" where
  "digit d = ''0123456789'' ! d"

fun toFixed0 :: "nat \<Rightarrow> string" where
  "toFixed0 n = (if n < 10 then [digit n] else toFixed0 (n div 10) @ [digit (n mod 10)])"

declare toFixed0.simps [simp del]

section \<open>The types of three.js the materials use\<close>

text \<open>The data types of a texture; \<open>UnsignedByteType\<close> is the constant the source imports.\<close>

datatype TextureDataType =
  UnsignedByteType | ByteType | ShortType | UnsignedShortType
  | IntType | UnsignedIntType | FloatType | HalfFloatType

record Texture =
  texture_id :: nat
  type :: TextureDataType

text \<open>\<open>Vector4\<close>: \<open>set(x, y, z, w)\<close> replaces all four components; \<open>new Vector4()\<close> is (0, 0, 0, 1).\<close>

datatype Vector4 = Vector4 (vec_x: number) (vec_y: number) (vec_z: number) (vec_w: number)

definition Vector4_new :: Vector4 where
  "Vector4_new = Vector4 (Fin 0) (Fin 0) (Fin 0) (Fin 1)"

text \<open>
  \<open>ShaderMaterial\<close>, the base class of both materials: the uniforms, the compile-time
  defines (an object from macro names to strings) and the flag \<open>needsUpdate\<close> that asks
  for the shader to be compiled again.
\<close>

record 'u ShaderMaterial =
  uniforms :: 'u
  defines' :: "string \<rightharpoonup> string"
  needsUpdate :: bool

text \<open>Both materials have the uniform \<open>inputBuffer\<close>; a texture-valued uniform may hold null.\<close>

record Uniforms =
  inputBuffer :: "Texture option"

section \<open>MaskMaterial\<close>

record MaskUniforms = Uniforms +
  maskTexture :: "Texture option"
  strength :: number

type_synonym MaskMaterial = "MaskUniforms ShaderMaterial"

text \<open>
  \<open>ColorChannel\<close> and \<open>MaskFunction\<close> are enumerations of src/enums, which is not part
  of the sources at hand: a member is its numeric value, and the two members the
  constructor names are parameters of the constructor.
\<close>

type_synonym ColorChannel = nat
type_synonym MaskFunction = nat

definition MaskMaterial_set_inputBuffer :: "Texture option \<Rightarrow> MaskMaterial \<Rightarrow> MaskMaterial" where
  "MaskMaterial_set_inputBuffer v m = m\<lparr>uniforms := (uniforms m)\<lparr>inputBuffer := v\<rparr>\<rparr>"

definition MaskMaterial_setInputBuffer :: "Texture option \<Rightarrow> MaskMaterial \<Rightarrow> MaskMaterial" where
  "MaskMaterial_setInputBuffer v m = m\<lparr>uniforms := (uniforms m)\<lparr>inputBuffer := v\<rparr>\<rparr>"

text \<open>
  The setter of \<open>maskTexture\<close> stores the value and deletes the define before it reads
  \<open>value.type\<close>; on null that read throws, and the material is left as it is at that
  point (the left summand carries it).
\<close>

definition MaskMaterial_set_maskTexture ::
  "Texture option \<Rightarrow> MaskMaterial \<Rightarrow> error \<times> MaskMaterial + MaskMaterial" where
  "MaskMaterial_set_maskTexture v m =
     (let m1 = m\<lparr>uniforms := (uniforms m)\<lparr>maskTexture := v\<rparr>\<rparr>;
          m2 = m1\<lparr>defines' := (defines' m1)(''MASK_PRECISION_HIGH'' := None)\<rparr>
      in case v of
           None \<Rightarrow> Inl (TypeError, m2)
         | Some t \<Rightarrow>
             (let m3 = (if type t \<noteq> UnsignedByteType
                        then m2\<lparr>defines' := (defines' m2)(''MASK_PRECISION_HIGH'' \<mapsto> ''1'')\<rparr>
                        else m2)
              in Inr (m3\<lparr>needsUpdate := True\<rparr>)))"

definition MaskMaterial_setMaskTexture ::
  "Texture option \<Rightarrow> MaskMaterial \<Rightarrow> error \<times> MaskMaterial + MaskMaterial" where
  "MaskMaterial_setMaskTexture v m = MaskMaterial_set_maskTexture v m"

definition MaskMaterial_set_colorChannel :: "ColorChannel \<Rightarrow> MaskMaterial \<Rightarrow> MaskMaterial" where
  "MaskMaterial_set_colorChannel v m =
     m\<lparr>defines' := (defines' m)(''COLOR_CHANNEL'' \<mapsto> toFixed0 v), needsUpdate := True\<rparr>"

definition MaskMaterial_setColorChannel :: "ColorChannel \<Rightarrow> MaskMaterial \<Rightarrow> MaskMaterial" where
  "MaskMaterial_setColorChannel v m = MaskMaterial_set_colorChannel v m"

definition MaskMaterial_set_maskFunction :: "MaskFunction \<Rightarrow> MaskMaterial \<Rightarrow> MaskMaterial" where
  "MaskMaterial_set_maskFunction v m =
     m\<lparr>defines' := (defines' m)(''MASK_FUNCTION'' \<mapsto> toFixed0 v), needsUpdate := True\<rparr>"

definition MaskMaterial_setMaskFunction :: "MaskFunction \<Rightarrow> MaskMaterial \<Rightarrow> MaskMaterial" where
  "MaskMaterial_setMaskFunction v m = MaskMaterial_set_maskFunction v m"

definition MaskMaterial_get_inverted :: "MaskMaterial \<Rightarrow> bool" where
  "MaskMaterial_get_inverted m = (defines' m ''INVERTED'' \<noteq> None)"

definition MaskMaterial_set_inverted :: "bool \<Rightarrow> MaskMaterial \<Rightarrow> MaskMaterial" where
  "MaskMaterial_set_inverted v m =
     (let m1 = (if MaskMaterial_get_inverted m \<and> \<not> v
                then m\<lparr>defines' := (defines' m)(''INVERTED'' := None)\<rparr>
                else if v then m\<lparr>defines' := (defines' m)(''INVERTED'' \<mapsto> ''1'')\<rparr>
                else m)
      in m1\<lparr>needsUpdate := True\<rparr>)"

definition MaskMaterial_isInverted :: "MaskMaterial \<Rightarrow> bool" where
  "MaskMaterial_isInverted m = MaskMaterial_get_inverted m"

definition MaskMaterial_setInverted :: "bool \<Rightarrow> MaskMaterial \<Rightarrow> MaskMaterial" where
  "MaskMaterial_setInverted v m = MaskMaterial_set_inverted v m"

definition MaskMaterial_get_strength :: "MaskMaterial \<Rightarrow> number" where
  "MaskMaterial_get_strength m = strength (uniforms m)"

definition MaskMaterial_set_strength :: "number \<Rightarrow> MaskMaterial \<Rightarrow> MaskMaterial" where
  "MaskMaterial_set_strength v m = m\<lparr>uniforms := (uniforms m)\<lparr>strength := v\<rparr>\<rparr>"

definition MaskMaterial_getStrength :: "MaskMaterial \<Rightarrow> number" where
  "MaskMaterial_getStrength m = MaskMaterial_get_strength m"

definition MaskMaterial_setStrength :: "number \<Rightarrow> MaskMaterial \<Rightarrow> MaskMaterial" where
  "MaskMaterial_setStrength v m = MaskMaterial_set_strength v m"

text \<open>
  The constructor: the mask texture goes straight into the uniform (the setter is not
  called), the defines of a new \<open>ShaderMaterial\<close> are empty, and the two assignments go
  through the setters of \<open>colorChannel\<close> and \<open>maskFunction\<close>.
\<close>

definition MaskMaterial_new :: "ColorChannel \<Rightarrow> MaskFunction \<Rightarrow> Texture option \<Rightarrow> MaskMaterial" where
  "MaskMaterial_new RED DISCARD tex =
     MaskMaterial_set_maskFunction DISCARD
       (MaskMaterial_set_colorChannel RED
          \<lparr>uniforms = \<lparr>inputBuffer = None, maskTexture = tex, strength = Fin 1\<rparr>,
           defines' = Map.empty,
           needsUpdate = False\<rparr>)"

section \<open>KawaseBlurMaterial\<close>

record KawaseUniforms = Uniforms +
  texelSize :: Vector4
  scale :: number
  kernel :: number

text \<open>\<open>KernelSize\<close> is an enumeration of src/enums as well: a member is its numeric value.\<close>

type_synonym KernelSize = nat

record KawaseBlurMaterial = "KawaseUniforms ShaderMaterial" +
  kernelSize :: KernelSize

definition kernelPresets :: "real list list" where
  "kernelPresets =
     [[0, 0],
      [0, 1, 1],
      [0, 1, 1, 2],
      [0, 1, 2, 2, 3],
      [0, 1, 2, 3, 4, 4, 5],
      [0, 1, 2, 3, 4, 5, 7, 8, 9, 10]]"

definition KawaseBlurMaterial_set_inputBuffer ::
  "Texture option \<Rightarrow> KawaseBlurMaterial \<Rightarrow> KawaseBlurMaterial" where
  "KawaseBlurMaterial_set_inputBuffer v m = m\<lparr>uniforms := (uniforms m)\<lparr>inputBuffer := v\<rparr>\<rparr>"

definition KawaseBlurMaterial_setInputBuffer ::
  "Texture option \<Rightarrow> KawaseBlurMaterial \<Rightarrow> KawaseBlurMaterial" where
  "KawaseBlurMaterial_setInputBuffer v m = KawaseBlurMaterial_set_inputBuffer v m"

text \<open>Reading an array out of range gives \<open>undefined\<close>, here \<open>None\<close>.\<close>

definition KawaseBlurMaterial_get_kernelSequence :: "KawaseBlurMaterial \<Rightarrow> real list option" where
  "KawaseBlurMaterial_get_kernelSequence m =
     (if kernelSize m < length kernelPresets then Some (kernelPresets ! kernelSize m) else None)"

definition KawaseBlurMaterial_get_scale :: "KawaseBlurMaterial \<Rightarrow> number" where
  "KawaseBlurMaterial_get_scale m = scale (uniforms m)"

definition KawaseBlurMaterial_set_scale :: "number \<Rightarrow> KawaseBlurMaterial \<Rightarrow> KawaseBlurMaterial" where
  "KawaseBlurMaterial_set_scale v m = m\<lparr>uniforms := (uniforms m)\<lparr>scale := v\<rparr>\<rparr>"

definition KawaseBlurMaterial_getScale :: "KawaseBlurMaterial \<Rightarrow> number" where
  "KawaseBlurMaterial_getScale m = scale (uniforms m)"

definition KawaseBlurMaterial_setScale :: "number \<Rightarrow> KawaseBlurMaterial \<Rightarrow> KawaseBlurMaterial" where
  "KawaseBlurMaterial_setScale v m = m\<lparr>uniforms := (uniforms m)\<lparr>scale := v\<rparr>\<rparr>"

text \<open>\<open>getKernel()\<close> returns null.\<close>

definition KawaseBlurMaterial_getKernel :: "KawaseBlurMaterial \<Rightarrow> real list option" where
  "KawaseBlurMaterial_getKernel m = None"

definition KawaseBlurMaterial_get_kernel :: "KawaseBlurMaterial \<Rightarrow> number" where
  "KawaseBlurMaterial_get_kernel m = kernel (uniforms m)"

definition KawaseBlurMaterial_set_kernel :: "number \<Rightarrow> KawaseBlurMaterial \<Rightarrow> KawaseBlurMaterial" where
  "KawaseBlurMaterial_set_kernel v m = m\<lparr>uniforms := (uniforms m)\<lparr>kernel := v\<rparr>\<rparr>"

definition KawaseBlurMaterial_setKernel :: "number \<Rightarrow> KawaseBlurMaterial \<Rightarrow> KawaseBlurMaterial" where
  "KawaseBlurMaterial_setKernel v m = KawaseBlurMaterial_set_kernel v m"

definition KawaseBlurMaterial_setTexelSize ::
  "number \<Rightarrow> number \<Rightarrow> KawaseBlurMaterial \<Rightarrow> KawaseBlurMaterial" where
  "KawaseBlurMaterial_setTexelSize x y m =
     m\<lparr>uniforms := (uniforms m)
          \<lparr>texelSize := Vector4 x y (js_mul x (Fin 0.5)) (js_mul y (Fin 0.5))\<rparr>\<rparr>"

text \<open>
  \<open>setSize\<close> has no check and no \<open>throw\<close>: every call returns normally, which the result
  type makes explicit (\<open>Inl\<close> would be the error thrown).
\<close>

definition KawaseBlurMaterial_setSize ::
  "number \<Rightarrow> number \<Rightarrow> KawaseBlurMaterial \<Rightarrow> error \<times> KawaseBlurMaterial + KawaseBlurMaterial" where
  "KawaseBlurMaterial_setSize width height m =
     (let x = js_div (Fin 1.0) width; y = js_div (Fin 1.0) height
      in Inr (m\<lparr>uniforms := (uniforms m)
                   \<lparr>texelSize := Vector4 x y (js_mul x (Fin 0.5)) (js_mul y (Fin 0.5))\<rparr>\<rparr>))"

text \<open>
  The constructor; \<open>MEDIUM\<close> is the member of \<open>KernelSize\<close> it names, and the texel
  size given (by default \<open>new Vector4()\<close>) goes through \<open>setTexelSize\<close>.
\<close>

definition KawaseBlurMaterial_new :: "KernelSize \<Rightarrow> Vector4 \<Rightarrow> KawaseBlurMaterial" where
  "KawaseBlurMaterial_new MEDIUM ts =
     (KawaseBlurMaterial_setTexelSize (vec_x ts) (vec_y ts)
        \<lparr>uniforms = \<lparr>inputBuffer = None, texelSize = Vector4_new, scale = Fin 1, kernel = Fin 0\<rparr>,
         defines' = Map.empty,
         needsUpdate = False,
         kernelSize = 0\<rparr>)
     \<lparr>kernelSize := MEDIUM\<rparr>"

section \<open>Effects and the merged shader of an EffectPass\<close>

text \<open>
  The sources at hand hold the two materials, one test and one demo that calls
  \<open>EffectComposer\<close>, \<open>EffectPass\<close> and \<open>RenderPass\<close>. The classes \<open>Effect\<close>, \<open>Pass\<close>,
  \<open>EffectPass\<close> and \<open>EffectComposer\<close> themselves are not among them; what follows
  models them from the specification (sections 3, 4, 7 and 8).
\<close>

text \<open>Modelled from the spec: the handle of a buffer or of another GPU resource (section 4.1).\<close>

type_synonym handle = nat

text \<open>Modelled from the spec: a colour sample, three channels (idealised as reals).\<close>

datatype Color = Color (red: real) (green: real) (blue: real)

text \<open>Modelled from the spec: the attachment requirements an effect can declare (section 3).\<close>

datatype Attachment = ColorAttachment | Depth | Velocity | CustomTexture nat

text \<open>
  Modelled from the spec: \<open>Effect\<close> is missing from the sources. Section 4.2: an effect
  has a pure colour transform, a set of attachment requirements, a blend descriptor that
  says how its output combines with the accumulated result (here a function of the
  accumulated colour and the effect's own output), and may declare that it must run
  alone (section 4.3, step 1); section 3: it may have allocated GPU resources.
\<close>

record Effect =
  requirements :: "Attachment list"
  transform :: "Color \<Rightarrow> Color"
  blend :: "Color \<Rightarrow> Color \<Rightarrow> Color"
  runsAlone :: bool
  allocated :: "handle list"

text \<open>
  Modelled from the spec: one stage of the merged shader (section 4.3, step 2): the
  effect's transform is called on the incoming colour and its blend descriptor is
  applied to that contribution before the colour reaches the next effect.
\<close>

definition applyEffect :: "Effect \<Rightarrow> Color \<Rightarrow> Color" where
  "applyEffect e c = blend e c (transform e c)"

text \<open>
  Modelled from the spec: the synthesized main function of \<open>EffectPass\<close> (section 4.3,
  step 2), which calls the effects in list order and pipes the output of effect i into
  effect i+1: a loop over the list with the colour as accumulator.
\<close>

definition mainImage :: "Effect list \<Rightarrow> Color \<Rightarrow> Color" where
  "mainImage es input = foldl (\<lambda>c e. applyEffect e c) input es"

text \<open>
  Modelled from the spec: the compatibility check (section 4.3, step 1): an effect that
  must run alone cannot be merged with others.
\<close>

definition compatible :: "Effect list \<Rightarrow> bool" where
  "compatible es = (length es = 1 \<or> list_all (\<lambda>e. \<not> runsAlone e) es)"

text \<open>
  Modelled from the spec: the merge result of \<open>EffectPass\<close>, which is missing from the
  sources (section 3): the single program, here the attachments it requests and its main
  function.
\<close>

record Program =
  attachments :: "Attachment list"
  program_main :: "Color \<Rightarrow> Color"

text \<open>
  Modelled from the spec: the merging algorithm of \<open>EffectPass\<close> (section 4.3, steps 1
  to 4): the union of the attachment requirements, each requested once, and the main
  function. An empty effect list and an incompatible one are configuration errors
  (sections 4.3 and 7).
\<close>

definition EffectPass_merge :: "Effect list \<Rightarrow> error + Program" where
  "EffectPass_merge es =
     (if es = [] then Inl ConfigurationError
      else if \<not> compatible es then Inl ConfigurationError
      else Inr \<lparr>attachments = remdups (concat (map requirements es)),
                program_main = mainImage es\<rparr>)"

text \<open>
  Modelled from the spec: the mathematical composition of section 8, stage N outermost
  and stage 1 innermost, written with function composition.
\<close>

definition composition :: "Effect list \<Rightarrow> Color \<Rightarrow> Color" where
  "composition es = foldr (\<lambda>e f. applyEffect e \<circ> f) (rev es) id"

text \<open>
  Modelled from the spec: the effects run as separate sequential passes (section 8),
  each pass holding one effect and reading what the pass before it wrote.
\<close>

fun sequentialPasses :: "Effect list \<Rightarrow> Color \<Rightarrow> Color" where
  "sequentialPasses [] c = c"
| "sequentialPasses (e # es) c = sequentialPasses es (mainImage [e] c)"

text \<open>Modelled from the spec: a colour written to a buffer is clamped to the valid range [0, 1].\<close>

definition clamp01 :: "real \<Rightarrow> real" where
  "clamp01 v = max 0 (min 1 v)"

text \<open>Modelled from the spec: the write of a colour to a buffer, each channel clamped.\<close>

definition writeColor :: "Color \<Rightarrow> Color" where
  "writeColor c = Color (clamp01 (red c)) (clamp01 (green c)) (clamp01 (blue c))"

text \<open>
  Modelled from the spec: the blend of the two effects of scenario B (section 8), which
  passes the effect's output on.
\<close>

definition replaceBlend :: "Color \<Rightarrow> Color \<Rightarrow> Color" where
  "replaceBlend dst src = src"

text \<open>Modelled from the spec: the effect of scenario B that multiplies the colour by 0.5.\<close>

definition halveEffect :: Effect where
  "halveEffect =
     \<lparr>requirements = [ColorAttachment],
      transform = (\<lambda>c. Color (red c * 0.5) (green c * 0.5) (blue c * 0.5)),
      blend = replaceBlend, runsAlone = False, allocated = []\<rparr>"

text \<open>Modelled from the spec: the effect of scenario B that adds 0.1 to each channel.\<close>

definition addTenthEffect :: Effect where
  "addTenthEffect =
     \<lparr>requirements = [ColorAttachment],
      transform = (\<lambda>c. Color (red c + 0.1) (green c + 0.1) (blue c + 0.1)),
      blend = replaceBlend, runsAlone = False, allocated = []\<rparr>"

section \<open>Passes and the composer\<close>

text \<open>
  Modelled from the spec: \<open>Pass\<close> is missing from the sources. Section 3: a pass has an
  enabled flag, a needs-depth-buffer flag and a needs-swap flag (its output must differ
  from its input; a pass without it works in place); an \<open>EffectPass\<close> is a pass with a
  list of effects (\<open>None\<close> for any other pass). It may hold GPU resources of its own.
\<close>

record Pass =
  enabled :: bool
  needsSwap :: bool
  needsDepthBuffer :: bool
  effects :: "Effect list option"
  resources :: "handle list"

text \<open>
  Modelled from the spec: what a pass writes (section 4.4): an intermediate buffer or the
  display.
\<close>

datatype Target = Buffer handle | Display

text \<open>
  Modelled from the spec: one invocation of a pass during a frame (section 4.4): the
  buffer it reads, the target it writes, and the buffer that is the current input once
  it has run.
\<close>

record Invocation =
  invoked :: Pass
  reads :: handle
  writes :: Target
  nextInput :: handle

text \<open>
  Modelled from the spec: what an enabled pass reports before it draws: an \<open>EffectPass\<close>
  builds its merge result, lazily, on execution (section 4.4), and the error of the
  merge is the error of the pass.
\<close>

definition Pass_error :: "Pass \<Rightarrow> error option" where
  "Pass_error p =
     (case effects p of
        None \<Rightarrow> None
      | Some es \<Rightarrow> (case EffectPass_merge es of Inl e \<Rightarrow> Some e | Inr prog \<Rightarrow> None))"

text \<open>
  Modelled from the spec: one frame of \<open>EffectComposer\<close> (section 4.4). Disabled passes
  are skipped. An enabled pass reads the current input buffer; the last enabled pass
  writes the display, any other pass writes the alternate buffer when it needs a swap
  and works in place when it does not. After a pass that needs a swap the two buffers
  change roles. The first error ends the frame. The result is the error, if any, the
  invocations made (up to the error), and the current and the alternate buffer at the end.
\<close>

fun execute ::
  "Pass list \<Rightarrow> handle \<Rightarrow> handle \<Rightarrow> error option \<times> Invocation list \<times> handle \<times> handle" where
  "execute [] cur alt = (None, [], cur, alt)"
| "execute (p # ps) cur alt =
     (if \<not> enabled p then execute ps cur alt
      else case Pass_error p of
        Some e \<Rightarrow> (Some e, [], cur, alt)
      | None \<Rightarrow>
          (let out = (if \<not> list_ex enabled ps then Display
                      else if needsSwap p then Buffer alt else Buffer cur);
               cur' = (if needsSwap p then alt else cur);
               alt' = (if needsSwap p then cur else alt);
               inv = \<lparr>invoked = p, reads = cur, writes = out, nextInput = cur'\<rparr>
           in case execute ps cur' alt' of
                (r, tr, c, a) \<Rightarrow> (r, inv # tr, c, a)))"

text \<open>
  Modelled from the spec: \<open>EffectComposer\<close> is missing from the sources. Section 3: it
  owns the ordered pass list, the two ping-pong buffers (one of them the current input)
  and a depth buffer; \<open>owned\<close> lists the buffers it holds from the pool.
\<close>

record Composer =
  passes :: "Pass list"
  currentBuffer :: handle
  alternateBuffer :: handle
  depthBuffer :: handle
  owned :: "handle list"

text \<open>
  Modelled from the spec: \<open>render()\<close> executes exactly one frame (section 6). On an error
  the composer is left as it was before the frame (section 7: no partial buffer swap);
  otherwise the roles of the two buffers are those the frame ended with.
\<close>

definition render :: "Composer \<Rightarrow> (error + Invocation list) \<times> Composer" where
  "render c =
     (case execute (passes c) (currentBuffer c) (alternateBuffer c) of
        (r, tr, cur, alt) \<Rightarrow>
          (case r of
             Some e \<Rightarrow> (Inl e, c)
           | None \<Rightarrow> (Inr tr, c\<lparr>currentBuffer := cur, alternateBuffer := alt\<rparr>)))"

text \<open>
  Modelled from the spec: a configuration is valid when every enabled \<open>EffectPass\<close> has
  a non-empty list of compatible effects (sections 4.3 and 7).
\<close>

definition validPass :: "Pass \<Rightarrow> bool" where
  "validPass p =
     (case effects p of None \<Rightarrow> True | Some es \<Rightarrow> es \<noteq> [] \<and> compatible es)"

text \<open>Modelled from the spec: a valid pass list: every enabled pass of it is valid.\<close>

definition validConfiguration :: "Pass list \<Rightarrow> bool" where
  "validConfiguration ps = list_all validPass (filter enabled ps)"

section \<open>Disposal\<close>

text \<open>
  Modelled from the spec: the \<open>RenderTargetPool\<close> (section 4.1), missing from the
  sources, as the list of the handles in use, one entry for each reference held.
\<close>

record RenderTargetPool =
  inUse :: "handle list"

text \<open>Modelled from the spec: \<open>release(handle)\<close> of the pool gives one reference back.\<close>

definition release :: "handle \<Rightarrow> RenderTargetPool \<Rightarrow> RenderTargetPool" where
  "release h pool = pool\<lparr>inUse := remove1 h (inUse pool)\<rparr>"

text \<open>
  Modelled from the spec: the release hook of an \<open>Effect\<close> (section 3): it releases the
  GPU resources the effect allocated, and the effect forgets them. The specification
  gives disposal no error outcome.
\<close>

definition Effect_dispose :: "Effect \<Rightarrow> RenderTargetPool \<Rightarrow> Effect \<times> RenderTargetPool" where
  "Effect_dispose e pool = (e\<lparr>allocated := []\<rparr>, fold release (allocated e) pool)"

text \<open>Modelled from the spec: the effects of a pass are disposed of in list order.\<close>

fun disposeEffects :: "Effect list \<Rightarrow> RenderTargetPool \<Rightarrow> Effect list \<times> RenderTargetPool" where
  "disposeEffects [] pool = ([], pool)"
| "disposeEffects (e # es) pool =
     (let (e', pool1) = Effect_dispose e pool;
          (es', pool2) = disposeEffects es pool1
      in (e' # es', pool2))"

text \<open>
  Modelled from the spec: \<open>dispose()\<close> of a \<open>Pass\<close> (section 4.4): it releases the
  resources of the pass, forgets them, and disposes of the effects of the pass.
\<close>

definition Pass_dispose :: "Pass \<Rightarrow> RenderTargetPool \<Rightarrow> Pass \<times> RenderTargetPool" where
  "Pass_dispose p pool =
     (let pool1 = fold release (resources p) pool;
          p1 = p\<lparr>resources := []\<rparr>
      in case effects p1 of
           None \<Rightarrow> (p1, pool1)
         | Some es \<Rightarrow>
             (let (es', pool2) = disposeEffects es pool1
              in (p1\<lparr>effects := Some es'\<rparr>, pool2)))"

text \<open>Modelled from the spec: the passes of the composer are disposed of in list order.\<close>

fun disposePasses :: "Pass list \<Rightarrow> RenderTargetPool \<Rightarrow> Pass list \<times> RenderTargetPool" where
  "disposePasses [] pool = ([], pool)"
| "disposePasses (p # ps) pool =
     (let (p', pool1) = Pass_dispose p pool;
          (ps', pool2) = disposePasses ps pool1
      in (p' # ps', pool2))"

text \<open>
  Modelled from the spec: \<open>dispose()\<close> of the \<open>EffectComposer\<close> (section 4.4): it releases
  the buffers the composer owns, forgets them, and disposes of every pass.
\<close>

definition Composer_dispose :: "Composer \<Rightarrow> RenderTargetPool \<Rightarrow> Composer \<times> RenderTargetPool" where
  "Composer_dispose c pool =
     (let pool1 = fold release (owned c) pool;
          (ps', pool2) = disposePasses (passes c) pool1
      in (c\<lparr>passes := ps', owned := []\<rparr>, pool2))"

section \<open>Example values\<close>

definition tex_float :: Texture where
  "tex_float = \<lparr>texture_id = 1, type = FloatType\<rparr>"

definition tex_byte :: Texture where
  "tex_byte = \<lparr>texture_id = 2, type = UnsignedByteType\<rparr>"

text \<open>
  A mask material with a float texture as its mask, its shader compiled (\<open>needsUpdate\<close>
  not raised).
\<close>

definition maskCompiled :: MaskMaterial where
  "maskCompiled =
     \<lparr>uniforms = \<lparr>inputBuffer = None, maskTexture = Some tex_float, strength = Fin 1\<rparr>,
      defines' = [''COLOR_CHANNEL'' \<mapsto> ''0'', ''MASK_FUNCTION'' \<mapsto> ''0'',
                  ''MASK_PRECISION_HIGH'' \<mapsto> ''1''],
      needsUpdate = False\<rparr>"

text \<open>The binary64 value \<open>2 ^ -1024\<close>, a subnormal number greater than zero.\<close>

definition tinyWidth :: number where
  "tinyWidth = Fin (1 / 2 ^ 1024)"

text \<open>A mask material and a blur material as their constructors leave them.\<close>

definition mask0 :: MaskMaterial where
  "mask0 = MaskMaterial_new 0 0 None"

definition blur0 :: KawaseBlurMaterial where
  "blur0 = KawaseBlurMaterial_new 2 Vector4_new"

text \<open>
  Passes and composers for the scenarios of section 8: a pass that is no \<open>EffectPass\<close>
  and works in place, an \<open>EffectPass\<close> with the two effects of scenario B, an
  \<open>EffectPass\<close> whose effect has a look-up texture of its own, a last pass that works in
  place, and an \<open>EffectPass\<close> without effects.
\<close>

definition scenePass :: Pass where
  "scenePass =
     \<lparr>enabled = True, needsSwap = False, needsDepthBuffer = True,
      effects = None, resources = []\<rparr>"

definition effectPass :: Pass where
  "effectPass =
     \<lparr>enabled = True, needsSwap = True, needsDepthBuffer = False,
      effects = Some [halveEffect, addTenthEffect], resources = [20]\<rparr>"

definition lutPass :: Pass where
  "lutPass =
     \<lparr>enabled = True, needsSwap = True, needsDepthBuffer = False,
      effects = Some [addTenthEffect\<lparr>allocated := [21]\<rparr>], resources = []\<rparr>"

definition outputPass :: Pass where
  "outputPass =
     \<lparr>enabled = True, needsSwap = False, needsDepthBuffer = False,
      effects = Some [halveEffect], resources = []\<rparr>"

definition emptyPass :: Pass where
  "emptyPass =
     \<lparr>enabled = True, needsSwap = True, needsDepthBuffer = False,
      effects = Some [], resources = []\<rparr>"

definition composer0 :: Composer where
  "composer0 =
     \<lparr>passes = [scenePass, effectPass, lutPass, outputPass],
      currentBuffer = 10, alternateBuffer = 11, depthBuffer = 12, owned = [10, 11, 12]\<rparr>"

definition composerD :: Composer where
  "composerD = composer0\<lparr>passes := [scenePass, emptyPass]\<rparr>"

definition pool0 :: RenderTargetPool where
  "pool0 = \<lparr>inUse = [10, 11, 12, 20, 21]\<rparr>"

text \<open>The invocations of one frame of \<open>composer0\<close>, in order.\<close>

definition trace0 :: "Invocation list" where
  "trace0 =
     [\<lparr>invoked = scenePass, reads = 10, writes = Buffer 10, nextInput = 10\<rparr>,
      \<lparr>invoked = effectPass, reads = 10, writes = Buffer 11, nextInput = 11\<rparr>,
      \<lparr>invoked = lutPass, reads = 11, writes = Buffer 10, nextInput = 10\<rparr>,
      \<lparr>invoked = outputPass, reads = 10, writes = Display, nextInput = 10\<rparr>]"

text \<open>An effect as its disposal leaves it.\<close>

definition forget :: "Effect \<Rightarrow> Effect" where
  "forget e = e\<lparr>allocated := []\<rparr>"

section \<open>The materials: setters, defines and recompilation\<close>

lemmas mask_defs =
  MaskMaterial_set_inputBuffer_def MaskMaterial_setInputBuffer_def
  MaskMaterial_set_maskTexture_def MaskMaterial_setMaskTexture_def
  MaskMaterial_set_colorChannel_def MaskMaterial_setColorChannel_def
  MaskMaterial_set_maskFunction_def MaskMaterial_setMaskFunction_def
  MaskMaterial_get_inverted_def MaskMaterial_set_inverted_def
  MaskMaterial_isInverted_def MaskMaterial_setInverted_def
  MaskMaterial_get_strength_def MaskMaterial_set_strength_def
  MaskMaterial_getStrength_def MaskMaterial_setStrength_def

lemmas blur_defs =
  KawaseBlurMaterial_set_inputBuffer_def KawaseBlurMaterial_setInputBuffer_def
  KawaseBlurMaterial_get_scale_def KawaseBlurMaterial_set_scale_def
  KawaseBlurMaterial_getScale_def KawaseBlurMaterial_setScale_def
  KawaseBlurMaterial_get_kernel_def KawaseBlurMaterial_set_kernel_def
  KawaseBlurMaterial_setKernel_def KawaseBlurMaterial_setTexelSize_def
  KawaseBlurMaterial_setSize_def

text \<open>Arithmetic at the values the examples below use.\<close>

lemma round_half_even_of_int: "round_half_even (of_int n) = n"
  by (simp add: round_half_even_def)

lemma round_half_even_numeral: "round_half_even (numeral k) = numeral k"
  using round_half_even_of_int [of "numeral k"] by simp

lemma round_half_even_0: "round_half_even 0 = 0"
  using round_half_even_of_int [of 0] by simp

text \<open>The binary search finds the exponent.\<close>

lemma log_ok_Nil: "1 \<le> s \<Longrightarrow> s < 2 \<Longrightarrow> log_ok [] s"
  by (simp add: log_ok_def floor_log2.simps)

lemma log_ok_Cons:
  assumes s: "1 \<le> s" "s < 2 ^ (2 * k)"
    and rest: "\<And>t. 1 \<le> t \<Longrightarrow> t < 2 ^ k \<Longrightarrow> log_ok ks t"
  shows "log_ok (k # ks) s"
proof (cases "(2::real) ^ k \<le> s")
  case True
  let ?t = "s / 2 ^ k"
  have t1: "1 \<le> ?t" using True by (simp add: le_divide_eq)
  have "s < 2 ^ k * 2 ^ k" using s(2) by (simp add: power_add [symmetric] mult_2)
  then have t2: "?t < 2 ^ k" by (simp add: divide_less_eq)
  from rest [OF t1 t2] have a: "2 ^ floor_log2 ks ?t \<le> ?t" and b: "?t < 2 ^ (floor_log2 ks ?t + 1)"
    by (simp_all add: log_ok_def)
  from a have "2 ^ k * 2 ^ floor_log2 ks ?t \<le> s" by (simp add: le_divide_eq mult.commute)
  moreover from b have "s < 2 ^ k * 2 ^ (floor_log2 ks ?t + 1)"
    by (simp add: divide_less_eq mult.commute)
  ultimately show ?thesis using True
    by (simp add: log_ok_def power_add floor_log2.simps)
next
  case False
  then have "s < 2 ^ k" by simp
  from rest [OF s(1) this] False show ?thesis by (simp add: log_ok_def floor_log2.simps)
qed

lemma log_ok_step:
  assumes "\<And>t. 1 \<le> t \<Longrightarrow> t < 2 ^ k \<Longrightarrow> log_ok ks t"
    and "n = 2 * k" and "1 \<le> s" and "s < 2 ^ n"
  shows "log_ok (k # ks) s"
  using assms(3) assms(4) assms(1) unfolding assms(2) by (rule log_ok_Cons)

lemma floor_log2_steps:
  assumes "1 \<le> s" and "s < 2 ^ 2048"
  shows "log_ok [1024, 512, 256, 128, 64, 32, 16, 8, 4, 2, 1] s"
proof -
  have p0: "log_ok [] t" if "1 \<le> t" "t < 2 ^ 1" for t :: real
    using that by (simp add: log_ok_Nil)
  have p1: "log_ok [1] t" if "1 \<le> t" "t < 2 ^ 2" for t :: real
    by (rule log_ok_step [OF p0 _ that]) simp_all
  have p2: "log_ok [2, 1] t" if "1 \<le> t" "t < 2 ^ 4" for t :: real
    by (rule log_ok_step [OF p1 _ that]) simp_all
  have p3: "log_ok [4, 2, 1] t" if "1 \<le> t" "t < 2 ^ 8" for t :: real
    by (rule log_ok_step [OF p2 _ that]) simp_all
  have p4: "log_ok [8, 4, 2, 1] t" if "1 \<le> t" "t < 2 ^ 16" for t :: real
    by (rule log_ok_step [OF p3 _ that]) simp_all
  have p5: "log_ok [16, 8, 4, 2, 1] t" if "1 \<le> t" "t < 2 ^ 32" for t :: real
    by (rule log_ok_step [OF p4 _ that]) simp_all
  have p6: "log_ok [32, 16, 8, 4, 2, 1] t" if "1 \<le> t" "t < 2 ^ 64" for t :: real
    by (rule log_ok_step [OF p5 _ that]) simp_all
  have p7: "log_ok [64, 32, 16, 8, 4, 2, 1] t" if "1 \<le> t" "t < 2 ^ 128" for t :: real
    by (rule log_ok_step [OF p6 _ that]) simp_all
  have p8: "log_ok [128, 64, 32, 16, 8, 4, 2, 1] t" if "1 \<le> t" "t < 2 ^ 256" for t :: real
    by (rule log_ok_step [OF p7 _ that]) simp_all
  have p9: "log_ok [256, 128, 64, 32, 16, 8, 4, 2, 1] t" if "1 \<le> t" "t < 2 ^ 512" for t :: real
    by (rule log_ok_step [OF p8 _ that]) simp_all
  have p10: "log_ok [512, 256, 128, 64, 32, 16, 8, 4, 2, 1] t" if "1 \<le> t" "t < 2 ^ 1024" for t :: real
    by (rule log_ok_step [OF p9 _ that]) simp_all
  show ?thesis
    by (rule log_ok_step [OF p10 _ assms]) simp_all
qed



lemma floor_log2_unique:
  assumes "1 \<le> s" and "s < 2 ^ 2048" and "2 ^ e \<le> s" and "s < 2 ^ (e + 1)"
  shows "floor_log2 [1024, 512, 256, 128, 64, 32, 16, 8, 4, 2, 1] s = e"
proof -
  define l where "l = floor_log2 [1024, 512, 256, 128, 64, 32, 16, 8, 4, 2, 1] s"
  from floor_log2_steps [OF assms(1,2)]
  have a: "2 ^ l \<le> s" and b: "s < 2 ^ (l + 1)" by (simp_all add: log_ok_def l_def)
  from a assms(4) have "(2::real) ^ l < 2 ^ (e + 1)" by (rule le_less_trans)
  then have 1: "l < e + 1" by (rule power_less_imp_less_exp [rotated]) simp
  from assms(3) b have "(2::real) ^ e < 2 ^ (l + 1)" by (rule le_less_trans)
  then have 2: "e < l + 1" by (rule power_less_imp_less_exp [rotated]) simp
  from 1 2 show ?thesis unfolding l_def by simp
qed


text \<open>
  Rounding in the normal range, and the reason why halving the rounded reciprocal is
  rounding half the reciprocal there: both have the same significand.
\<close>

lemma round_half_even_bounds:
  assumes "of_int lo \<le> x" and "x < of_int hi"
  shows "lo \<le> round_half_even x \<and> round_half_even x \<le> hi"
proof -
  have f1: "lo \<le> \<lfloor>x\<rfloor>" using assms(1) by (simp add: le_floor_iff)
  have f2: "\<lfloor>x\<rfloor> < hi" using assms(2) by (simp add: floor_less_iff)
  show ?thesis using f1 f2 by (auto simp: round_half_even_def Let_def)
qed

lemma round64_normal:
  fixes a :: real
  assumes lo: "2 ^ e \<le> a * 2 ^ 1022" and hi: "a * 2 ^ 1022 < 2 ^ (e + 1)" and e: "e \<le> 2044"
  shows "round64 False a
           = Fin (of_int (round_half_even (a / (2 ^ e / 2 ^ 1074))) * (2 ^ e / 2 ^ 1074))
     \<and> 2 ^ 52 \<le> round_half_even (a / (2 ^ e / 2 ^ 1074))
     \<and> round_half_even (a / (2 ^ e / 2 ^ 1074)) \<le> 2 ^ 53"
proof -
  define s where "s = a * 2 ^ 1022"
  have s1: "1 \<le> s"
  proof -
    have "(1::real) \<le> 2 ^ e" by simp
    with lo show ?thesis unfolding s_def by linarith
  qed
  have "(2::real) ^ (e + 1) \<le> 2 ^ 2048" using e by (intro power_increasing) simp_all
  with hi have s2: "s < 2 ^ 2048" unfolding s_def by linarith
  have fl: "floor_log2 [1024, 512, 256, 128, 64, 32, 16, 8, 4, 2, 1] s = e"
    using s1 s2 lo hi unfolding s_def by (rule floor_log2_unique)
  have e_eq: "(if s < 1 then 0 else floor_log2 [1024, 512, 256, 128, 64, 32, 16, 8, 4, 2, 1] s) = e"
  proof -
    from s1 have "\<not> s < 1" by simp
    then show ?thesis by (simp only: if_False fl)
  qed
  define q where "q = a / (2 ^ e / 2 ^ 1074)"
  have q_eq: "q = s * 2 ^ 52 / 2 ^ e"
    unfolding q_def s_def by (simp add: power_add [symmetric] mult.assoc)
  have q_lo: "2 ^ 52 \<le> q"
  proof -
    have "2 ^ e * 2 ^ 52 \<le> s * 2 ^ 52" using lo unfolding s_def by simp
    then show ?thesis unfolding q_eq by (simp add: le_divide_eq mult.commute)
  qed
  have q_hi: "q < 2 ^ 53"
  proof -
    have "s * 2 ^ 52 < 2 ^ (e + 1) * 2 ^ 52" using hi unfolding s_def by simp
    then show ?thesis unfolding q_eq by (simp add: divide_less_eq mult.commute)
  qed
  define m where "m = round_half_even q"
  have mb: "2 ^ 52 \<le> m \<and> m \<le> 2 ^ 53"
    unfolding m_def by (rule round_half_even_bounds) (use q_lo q_hi in simp_all)
  define v :: real where "v = of_int m * (2 ^ e / 2 ^ 1074)"
  have v_pos: "0 < v" using mb unfolding v_def by simp
  have v_hi: "v < 2 ^ 1024"
  proof -
    have "real_of_int m \<le> 2 ^ 53" using mb by (metis of_int_le_iff of_int_numeral of_int_power)
    then have "real_of_int m * 2 ^ e \<le> 2 ^ 53 * 2 ^ e" by simp
    also have "\<dots> = 2 ^ (53 + e)" by (simp add: power_add)
    also have "\<dots> \<le> 2 ^ 2097" using e by (intro power_increasing) simp_all
    also have "\<dots> < 2 ^ 1024 * 2 ^ 1074" by (simp add: power_add [symmetric])
    finally show ?thesis unfolding v_def by (simp add: divide_less_eq)
  qed
  have "round64 False a = (if 2 ^ 1024 \<le> v then PosInf else if v = 0 then Fin 0 else Fin v)"
    unfolding round64_def Let_def s_def [symmetric] e_eq q_def [symmetric] m_def [symmetric]
      v_def [symmetric]
    by (simp only: if_False)
  with v_pos v_hi have "round64 False a = Fin v" by simp
  with mb show ?thesis unfolding v_def m_def q_def by simp
qed


lemma round64_representable:
  fixes u :: real
  assumes u: "u = 2 ^ k / 2 ^ 1074" and k: "Suc k \<le> 2044"
    and m: "2 ^ 52 \<le> m" "m \<le> 2 ^ 53"
  shows "round64 False (of_int m * u) = Fin (of_int m * u)"
proof -
  have upos: "0 < u" unfolding u by simp
  have scale: "u * 2 ^ 1022 = 2 ^ k / 2 ^ 52"
    unfolding u by simp
  have mr: "(2::real) ^ 52 \<le> of_int m" "real_of_int m \<le> 2 ^ 53"
    using m by (metis of_int_le_iff of_int_numeral of_int_power)+
  show ?thesis
  proof (cases "m = 2 ^ 53")
    case True
    then have mv: "real_of_int m = 2 ^ 53" by simp
    have s_eq: "of_int m * u * 2 ^ 1022 = 2 ^ Suc k"
      by (simp add: mv mult.assoc scale del: power_numeral) simp
    have q: "of_int m * u / (2 ^ Suc k / 2 ^ 1074) = of_int (2 ^ 52)"
      unfolding u mv by simp
    from round64_normal [of "Suc k" "of_int m * u"] k
    have "round64 False (of_int m * u)
            = Fin (of_int (round_half_even (of_int m * u / (2 ^ Suc k / 2 ^ 1074)))
                    * (2 ^ Suc k / 2 ^ 1074))"
      by (simp only: s_eq) simp
    also have "\<dots> = Fin (of_int (2 ^ 52) * (2 ^ Suc k / 2 ^ 1074))"
      by (simp only: q round_half_even_of_int)
    also have "\<dots> = Fin (of_int m * u)"
      unfolding u mv by simp
    finally show ?thesis .
  next
    case False
    with m have "m < 2 ^ 53" by simp
    then have mlt: "real_of_int m < 2 ^ 53"
      by (metis of_int_less_iff of_int_numeral of_int_power)
    have s_eq: "of_int m * u * 2 ^ 1022 = of_int m * 2 ^ k / 2 ^ 52"
      by (simp add: mult.assoc scale del: power_numeral)
    have lo: "2 ^ k \<le> of_int m * u * 2 ^ 1022"
    proof -
      have "2 ^ 52 * (2::real) ^ k \<le> of_int m * 2 ^ k" using mr(1) by simp
      then show ?thesis unfolding s_eq by (simp add: le_divide_eq mult.commute)
    qed
    have hi: "of_int m * u * 2 ^ 1022 < 2 ^ (k + 1)"
    proof -
      have "of_int m * (2::real) ^ k < 2 ^ 53 * 2 ^ k" using mlt by simp
      then show ?thesis unfolding s_eq by (simp add: divide_less_eq mult.commute)
    qed
    have q: "of_int m * u / (2 ^ k / 2 ^ 1074) = of_int m"
      using upos unfolding u by simp
    from round64_normal [OF lo hi] k
    have "round64 False (of_int m * u)
            = Fin (of_int (round_half_even (of_int m * u / (2 ^ k / 2 ^ 1074)))
                    * (2 ^ k / 2 ^ 1074))"
      by simp
    also have "\<dots> = Fin (of_int m * u)"
      by (simp only: q round_half_even_of_int) (simp only: u)
    finally show ?thesis .
  qed
qed

lemma half_of_reciprocal:
  fixes x :: real
  assumes x_lo: "1 / 2 ^ 1022 \<le> x" and x_hi: "x \<le> 2 ^ 1021"
  shows "js_mul (js_div (Fin 1) (Fin x)) (Fin (1 / 2)) = js_div (Fin (1 / 2)) (Fin x)"
proof -
  have xpos: "0 < x"
  proof -
    have "(0::real) < 1 / 2 ^ 1022" by simp
    with x_lo show ?thesis by linarith
  qed
  define a where "a = 1 / x"
  define s where "s = a * 2 ^ 1022"
  have s_lo: "2 \<le> s"
  proof -
    have "2 * x \<le> 2 * 2 ^ 1021" using x_hi by simp
    also have "\<dots> = (2::real) ^ 1022" by simp
    finally show ?thesis unfolding s_def a_def using xpos by (simp add: le_divide_eq)
  qed
  have s_hi: "s \<le> 2 ^ 2044"
  proof -
    have "(2::real) ^ 1022 = 2 ^ 2044 * (1 / 2 ^ 1022)" by simp
    also have "\<dots> \<le> 2 ^ 2044 * x" using x_lo by (intro mult_left_mono) simp_all
    finally show ?thesis unfolding s_def a_def using xpos by (simp add: divide_le_eq)
  qed
  have s1: "1 \<le> s" using s_lo by simp
  have "(2::real) ^ 2044 < 2 ^ 2048" by simp
  with s_hi have s2: "s < 2 ^ 2048" by linarith
  define e where "e = floor_log2 [1024, 512, 256, 128, 64, 32, 16, 8, 4, 2, 1] s"
  from floor_log2_steps [OF s1 s2]
  have e_lo: "2 ^ e \<le> s" and e_hi: "s < 2 ^ (e + 1)" by (simp_all add: log_ok_def e_def)
  have "(2::real) ^ 1 < 2 ^ (e + 1)" using s_lo e_hi by simp
  then have "1 < e + 1" by (rule power_less_imp_less_exp [rotated]) simp
  then obtain k where ek: "e = Suc k" by (cases e) simp_all
  have "(2::real) ^ e \<le> 2 ^ 2044" using e_lo s_hi by linarith
  then have e_max: "e \<le> 2044" by (rule power_le_imp_le_exp [rotated]) simp
  define u :: real where "u = 2 ^ k / 2 ^ 1074"
  have upos: "0 < u" unfolding u_def by simp
  have ulp: "(2::real) ^ e / 2 ^ 1074 = 2 * u" unfolding u_def ek by simp
  define m where "m = round_half_even (a / (2 * u))"
  from round64_normal [OF e_lo [unfolded s_def] e_hi [unfolded s_def] e_max]
  have r1: "round64 False a = Fin (of_int m * (2 * u))"
    and mb: "2 ^ 52 \<le> m" "m \<le> 2 ^ 53"
    unfolding ulp m_def by simp_all
  have h_lo: "2 ^ k \<le> a / 2 * 2 ^ 1022" using e_lo unfolding s_def ek by simp
  have h_hi: "a / 2 * 2 ^ 1022 < 2 ^ (k + 1)" using e_hi unfolding s_def ek by simp
  have k_max: "k \<le> 2044" using e_max ek by simp
  have hq: "a / 2 / (2 ^ k / 2 ^ 1074) = a / (2 * u)" unfolding u_def by simp
  have r2: "round64 False (a / 2) = Fin (of_int m * u)"
    using round64_normal [OF h_lo h_hi k_max, THEN conjunct1]
    unfolding hq m_def u_def .
  have r3: "round64 False (of_int m * u) = Fin (of_int m * u)"
    using u_def _ mb by (rule round64_representable) (use e_max ek in simp)
  have mpos: "0 < real_of_int m"
  proof -
    have "(0::int) < 2 ^ 52" by simp
    with mb(1) have "0 < m" by linarith
    then show ?thesis by simp
  qed
  have vpos: "0 < real_of_int m * (2 * u)" using mpos upos by simp
  have d1: "js_div (Fin 1) (Fin x) = Fin (of_int m * (2 * u))"
    using xpos r1 by (simp add: js_div_def a_def)
  have d2: "js_div (Fin (1 / 2)) (Fin x) = Fin (of_int m * u)"
  proof -
    have "round64 False (1 / x / 2) = Fin (of_int m * u)" using r2 unfolding a_def .
    with xpos show ?thesis by (simp add: js_div_def mult.commute)
  qed
  have d3: "js_mul (Fin (of_int m * (2 * u))) (Fin (1 / 2)) = Fin (of_int m * u)"
  proof -
    have "\<bar>real_of_int m * (2 * u)\<bar> * \<bar>1 / 2\<bar> = of_int m * u" using vpos by simp
    moreover have "\<not> real_of_int m * (2 * u) < 0" using vpos by simp
    ultimately show ?thesis using r3 by (simp add: js_mul_def)
  qed
  show ?thesis unfolding d1 d2 d3 ..
qed

lemmas number_defs =
  js_div_def js_mul_def round64_def infinity_def zero_def Let_def floor_log2.simps
  round_half_even_numeral round_half_even_0

lemma js_div_examples:
  "js_div (Fin 1) (Fin (- 2)) = Fin (- (1 / 2))"
  "js_div (Fin 1) (Fin 0) = PosInf"
  "js_div (Fin 1) NegZero = NegInf"
  "js_div (Fin 1) (Fin 2) = Fin (1 / 2)"
  "js_div (Fin 1) (Fin 4) = Fin (1 / 4)"
  "js_div (Fin 1) (Fin 1) = Fin 1"
  "js_div (Fin (1 / 2)) (Fin 4) = Fin (1 / 8)"
  "js_div (Fin (1 / 2)) (Fin 2) = Fin (1 / 4)"
  by (simp_all add: number_defs)

lemma js_div_overflow:
  "js_div (Fin 1) tinyWidth = PosInf"
  "js_div (Fin (1 / 2)) tinyWidth = Fin (2 ^ 1023)"
  "js_div (Fin (1 / 2)) (Fin 1) = Fin (1 / 2)"
  by (simp_all add: number_defs tinyWidth_def)

lemma js_mul_examples:
  "js_mul (Fin (- (1 / 2))) (Fin (1 / 2)) = Fin (- (1 / 4))"
  "js_mul PosInf (Fin (1 / 2)) = PosInf"
  "js_mul NegInf (Fin (1 / 2)) = NegInf"
  "js_mul (Fin 0) (Fin (1 / 2)) = Fin 0"
  "js_mul (Fin 1) (Fin (1 / 2)) = Fin (1 / 2)"
  "js_mul (Fin 2) (Fin (1 / 2)) = Fin 1"
  "js_mul (Fin 4) (Fin (1 / 2)) = Fin 2"
  "js_mul (Fin (1 / 2)) (Fin (1 / 2)) = Fin (1 / 4)"
  "js_mul (Fin (1 / 4)) (Fin (1 / 2)) = Fin (1 / 8)"
  by (simp_all add: number_defs)

lemma maskCompiled_from_setter:
  "MaskMaterial_set_maskTexture (Some tex_float) mask0 = Inr (maskCompiled\<lparr>needsUpdate := True\<rparr>)"
  by (simp add: mask_defs MaskMaterial_new_def mask0_def maskCompiled_def tex_float_def
        toFixed0.simps digit_def Let_def)

text \<open>
  Claim C2 as stated fails for \<open>maskTexture\<close>: when null is assigned to a material whose
  mask was a float texture, the setter deletes the define \<open>MASK_PRECISION_HIGH\<close> and
  throws before it raises \<open>needsUpdate\<close>.
\<close>

theorem maskTexture_null_counterexample:
  "defines' maskCompiled ''MASK_PRECISION_HIGH'' = Some ''1''
   \<and> needsUpdate maskCompiled = False
   \<and> (\<exists>m'. MaskMaterial_set_maskTexture None maskCompiled = Inl (TypeError, m')
         \<and> maskTexture (uniforms m') = None
         \<and> defines' m' ''MASK_PRECISION_HIGH'' = None
         \<and> needsUpdate m' = False)"
  by (simp add: mask_defs maskCompiled_def Let_def)

text \<open>
  Claim C2, amended. Setting a scalar per-frame parameter (\<open>strength\<close> or the input buffer
  of a \<open>MaskMaterial\<close>; \<open>scale\<close>, \<open>kernel\<close> or the input buffer of a
  \<open>KawaseBlurMaterial\<close>) to any value changes that uniform and nothing else: the other
  uniforms, the defines and \<open>needsUpdate\<close> stay as they were. Setting \<open>maskFunction\<close>,
  \<open>colorChannel\<close> or \<open>inverted\<close> to any value, or \<open>maskTexture\<close> to a texture that is not
  null, writes the define (and, for \<open>maskTexture\<close>, the uniform), changes nothing else
  and leaves \<open>needsUpdate\<close> true.
\<close>

theorem scalar_setters_keep_needsUpdate:
  "uniforms (MaskMaterial_set_strength v m) = (uniforms m)\<lparr>strength := v\<rparr>
   \<and> defines' (MaskMaterial_set_strength v m) = defines' m
   \<and> needsUpdate (MaskMaterial_set_strength v m) = needsUpdate m
   \<and> uniforms (MaskMaterial_set_inputBuffer b m) = (uniforms m)\<lparr>inputBuffer := b\<rparr>
   \<and> defines' (MaskMaterial_set_inputBuffer b m) = defines' m
   \<and> needsUpdate (MaskMaterial_set_inputBuffer b m) = needsUpdate m
   \<and> uniforms (KawaseBlurMaterial_set_scale v k) = (uniforms k)\<lparr>scale := v\<rparr>
   \<and> defines' (KawaseBlurMaterial_set_scale v k) = defines' k
   \<and> needsUpdate (KawaseBlurMaterial_set_scale v k) = needsUpdate k
   \<and> kernelSize (KawaseBlurMaterial_set_scale v k) = kernelSize k
   \<and> uniforms (KawaseBlurMaterial_set_kernel v k) = (uniforms k)\<lparr>kernel := v\<rparr>
   \<and> defines' (KawaseBlurMaterial_set_kernel v k) = defines' k
   \<and> needsUpdate (KawaseBlurMaterial_set_kernel v k) = needsUpdate k
   \<and> kernelSize (KawaseBlurMaterial_set_kernel v k) = kernelSize k
   \<and> uniforms (KawaseBlurMaterial_set_inputBuffer b k) = (uniforms k)\<lparr>inputBuffer := b\<rparr>
   \<and> defines' (KawaseBlurMaterial_set_inputBuffer b k) = defines' k
   \<and> needsUpdate (KawaseBlurMaterial_set_inputBuffer b k) = needsUpdate k
   \<and> kernelSize (KawaseBlurMaterial_set_inputBuffer b k) = kernelSize k
   \<and> needsUpdate (MaskMaterial_set_maskFunction f m)
   \<and> defines' (MaskMaterial_set_maskFunction f m)
       = (defines' m)(''MASK_FUNCTION'' \<mapsto> toFixed0 f)
   \<and> uniforms (MaskMaterial_set_maskFunction f m) = uniforms m
   \<and> needsUpdate (MaskMaterial_set_colorChannel c m)
   \<and> defines' (MaskMaterial_set_colorChannel c m)
       = (defines' m)(''COLOR_CHANNEL'' \<mapsto> toFixed0 c)
   \<and> uniforms (MaskMaterial_set_colorChannel c m) = uniforms m
   \<and> needsUpdate (MaskMaterial_set_inverted i m)
   \<and> defines' (MaskMaterial_set_inverted i m)
       = (if i then (defines' m)(''INVERTED'' \<mapsto> ''1'') else (defines' m)(''INVERTED'' := None))
   \<and> uniforms (MaskMaterial_set_inverted i m) = uniforms m
   \<and> (\<exists>m'. MaskMaterial_set_maskTexture (Some t) m = Inr m'
         \<and> needsUpdate m'
         \<and> defines' m'
             = (if type t \<noteq> UnsignedByteType
                then (defines' m)(''MASK_PRECISION_HIGH'' \<mapsto> ''1'')
                else (defines' m)(''MASK_PRECISION_HIGH'' := None))
         \<and> uniforms m' = (uniforms m)\<lparr>maskTexture := Some t\<rparr>)"
  by (auto simp: mask_defs blur_defs Let_def)

text \<open>
  Claim C3 as stated fails: \<open>setSize\<close> with a width of -2 and a height of 0 returns
  normally, with texel sizes computed from them (\<open>1 / 0\<close> is \<open>Infinity\<close>).
\<close>

theorem setSize_nonpositive_counterexample:
  "js_nonpositive (Fin (- 2)) \<and> js_nonpositive (Fin 0)
   \<and> KawaseBlurMaterial_setSize (Fin (- 2)) (Fin 0) blur0
       = Inr (blur0\<lparr>uniforms := (uniforms blur0)
                \<lparr>texelSize := Vector4 (Fin (- (1 / 2))) PosInf (Fin (- (1 / 4))) PosInf\<rparr>\<rparr>)
   \<and> (\<forall>m'. KawaseBlurMaterial_setSize (Fin (- 2)) (Fin 0) blur0 \<noteq> Inl (ConfigurationError, m'))"
  by (simp add: KawaseBlurMaterial_setSize_def Let_def js_div_examples js_mul_examples)

lemma setSize_negative_zero_example:
  "js_nonpositive NegZero
   \<and> KawaseBlurMaterial_setSize NegZero (Fin 2) blur0
       = Inr (blur0\<lparr>uniforms := (uniforms blur0)
                \<lparr>texelSize := Vector4 NegInf (Fin (1 / 2)) NegInf (Fin (1 / 4))\<rparr>\<rparr>)"
  by (simp add: KawaseBlurMaterial_setSize_def Let_def js_div_examples js_mul_examples)

text \<open>
  Claim C3, amended. \<open>KawaseBlurMaterial.setSize\<close> checks nothing: for every width and
  height, a width or a height that is zero or negative included, it returns normally,
  and the texel size it stores is computed from them:
  (1/width, 1/height, (1/width) * 0.5, (1/height) * 0.5).
\<close>

theorem setSize_never_rejects:
  "\<exists>m'. KawaseBlurMaterial_setSize w h m = Inr m'
     \<and> texelSize (uniforms m') =
         Vector4 (js_div (Fin 1) w) (js_div (Fin 1) h)
           (js_mul (js_div (Fin 1) w) (Fin 0.5)) (js_mul (js_div (Fin 1) h) (Fin 0.5))"
  by (simp add: blur_defs Let_def)

text \<open>
  Claim C6 as stated fails where \<open>1 / w\<close> overflows: for the width \<open>2 ^ -1024\<close>
  (\<open>tinyWidth\<close>), which is greater than zero, \<open>1 / w\<close> is \<open>Infinity\<close> and so is the third component
  \<open>(1 / w) * 0.5\<close> that \<open>setSize\<close> stores, while \<open>0.5 / w\<close> is \<open>2 ^ 1023\<close>.
\<close>

theorem setSize_overflow_counterexample:
  "js_positive tinyWidth \<and> js_positive (Fin 1)
   \<and> KawaseBlurMaterial_setSize tinyWidth (Fin 1) blur0
       = Inr (blur0\<lparr>uniforms := (uniforms blur0)
                \<lparr>texelSize := Vector4 PosInf (Fin 1) PosInf (Fin (1 / 2))\<rparr>\<rparr>)
   \<and> Vector4 (js_div (Fin 1) tinyWidth) (js_div (Fin 1) (Fin 1))
        (js_div (Fin 0.5) tinyWidth) (js_div (Fin 0.5) (Fin 1))
       = Vector4 PosInf (Fin 1) (Fin (2 ^ 1023)) (Fin (1 / 2))
   \<and> Fin (2 ^ 1023) \<noteq> PosInf"
  by (simp add: KawaseBlurMaterial_setSize_def Let_def js_div_examples js_div_overflow
        js_mul_examples tinyWidth_def [symmetric])
     (simp add: tinyWidth_def)

text \<open>
  Claim C6, amended. For a width and a height greater than zero, \<open>setSize(w, h)\<close> does
  what \<open>setTexelSize(1/w, 1/h)\<close> does: it sets the texel size to
  (1/w, 1/h, (1/w) * 0.5, (1/h) * 0.5), each operation rounded as JavaScript rounds it,
  and changes nothing else of the material. For a width and a height from \<open>2 ^ -1022\<close> to
  \<open>2 ^ 1021\<close> that vector is exactly (1/w, 1/h, 0.5/w, 0.5/h).
\<close>

theorem setSize_is_setTexelSize_of_reciprocals:
  assumes "js_positive w" and "js_positive h"
  shows "KawaseBlurMaterial_setSize w h m
           = Inr (KawaseBlurMaterial_setTexelSize (js_div (Fin 1) w) (js_div (Fin 1) h) m)
   \<and> (\<exists>m'. KawaseBlurMaterial_setSize w h m = Inr m'
        \<and> texelSize (uniforms m') =
            Vector4 (js_div (Fin 1) w) (js_div (Fin 1) h)
              (js_mul (js_div (Fin 1) w) (Fin 0.5)) (js_mul (js_div (Fin 1) h) (Fin 0.5))
        \<and> (moderate w \<and> moderate h \<longrightarrow>
             texelSize (uniforms m') =
               Vector4 (js_div (Fin 1) w) (js_div (Fin 1) h)
                 (js_div (Fin 0.5) w) (js_div (Fin 0.5) h))
        \<and> inputBuffer (uniforms m') = inputBuffer (uniforms m)
        \<and> scale (uniforms m') = scale (uniforms m)
        \<and> kernel (uniforms m') = kernel (uniforms m)
        \<and> defines' m' = defines' m
        \<and> needsUpdate m' = needsUpdate m
        \<and> kernelSize m' = kernelSize m)"
proof -
  have half: "js_mul (js_div (Fin 1) v) (Fin (1 / 2)) = js_div (Fin (1 / 2)) v"
    if "moderate v" for v
    using that by (cases v) (simp_all add: half_of_reciprocal)
  show ?thesis
    by (simp add: blur_defs Let_def half)
qed

theorem setSize_is_setTexelSize_of_reciprocals_witness:
  "js_positive (Fin 4) \<and> js_positive (Fin 2) \<and> moderate (Fin 4) \<and> moderate (Fin 2)
   \<and> KawaseBlurMaterial_setSize (Fin 4) (Fin 2) blur0
       = Inr (KawaseBlurMaterial_setTexelSize (Fin (1 / 4)) (Fin (1 / 2)) blur0)
   \<and> (\<exists>m'. KawaseBlurMaterial_setSize (Fin 4) (Fin 2) blur0 = Inr m'
        \<and> texelSize (uniforms m')
            = Vector4 (Fin (1 / 4)) (Fin (1 / 2)) (Fin (1 / 8)) (Fin (1 / 4))
        \<and> texelSize (uniforms m')
            = Vector4 (js_div (Fin 1) (Fin 4)) (js_div (Fin 1) (Fin 2))
                (js_div (Fin 0.5) (Fin 4)) (js_div (Fin 0.5) (Fin 2)))"
proof -
  have p: "js_positive (Fin 4)" "js_positive (Fin 2)" by simp_all
  have r: "moderate (Fin 4)" "moderate (Fin 2)" by simp_all
  from setSize_is_setTexelSize_of_reciprocals [OF p, of blur0] p r
  show ?thesis
    by (simp add: KawaseBlurMaterial_setTexelSize_def Let_def js_div_examples js_mul_examples)
qed

text \<open>
  Claim C8. After a texture \<open>t\<close> is assigned to \<open>maskTexture\<close>, the uniform holds \<open>t\<close>, the
  define \<open>MASK_PRECISION_HIGH\<close> is present exactly when the type of \<open>t\<close> is not
  \<open>UnsignedByteType\<close>, and \<open>needsUpdate\<close> is true. The constructor, given a texture of
  any type, leaves \<open>MASK_PRECISION_HIGH\<close> undefined.
\<close>

theorem maskTexture_precision_define:
  "(\<exists>m'. MaskMaterial_set_maskTexture (Some t) m = Inr m'
        \<and> maskTexture (uniforms m') = Some t
        \<and> ((defines' m' ''MASK_PRECISION_HIGH'' \<noteq> None) = (type t \<noteq> UnsignedByteType))
        \<and> needsUpdate m')
   \<and> defines' (MaskMaterial_new RED DISCARD (Some t)) ''MASK_PRECISION_HIGH'' = None"
  by (simp add: mask_defs MaskMaterial_new_def Let_def)

lemma maskTexture_float_example:
  "(\<exists>m'. MaskMaterial_set_maskTexture (Some tex_float) mask0 = Inr m'
         \<and> defines' m' ''MASK_PRECISION_HIGH'' = Some ''1''
         \<and> defines' m' ''COLOR_CHANNEL'' = Some ''0'')
   \<and> (\<exists>m'. MaskMaterial_set_maskTexture (Some tex_byte) mask0 = Inr m'
         \<and> defines' m' ''MASK_PRECISION_HIGH'' = None)
   \<and> defines' (MaskMaterial_new 0 0 (Some tex_float)) ''MASK_PRECISION_HIGH'' = None"
  by (simp add: mask_defs MaskMaterial_new_def mask0_def tex_float_def tex_byte_def
        toFixed0.simps digit_def Let_def)

text \<open>
  Claim C9. The setter of \<open>maskTexture\<close> returns normally exactly when the value is not
  null: on null it throws a \<open>TypeError\<close>, on a texture it never throws. Null is what the
  constructor stores in the uniform by default.
\<close>

theorem maskTexture_setter_total_iff_non_null:
  "((\<exists>m'. MaskMaterial_set_maskTexture v m = Inr m') = (v \<noteq> None))
   \<and> (\<exists>m'. MaskMaterial_set_maskTexture None m = Inl (TypeError, m'))
   \<and> (\<forall>t e m'. MaskMaterial_set_maskTexture (Some t) m \<noteq> Inl (e, m'))
   \<and> maskTexture (uniforms (MaskMaterial_new RED DISCARD None)) = None"
  by (cases v) (simp_all add: mask_defs MaskMaterial_new_def Let_def)

text \<open>
  Claim C10 as stated fails for \<open>setTexelSize\<close>: the method its documentation names as
  the replacement, \<open>setSize\<close>, does something else on the same arguments.
\<close>

theorem setTexelSize_is_not_setSize_counterexample:
  "texelSize (uniforms (KawaseBlurMaterial_setTexelSize (Fin 2) (Fin 4) blur0))
     = Vector4 (Fin 2) (Fin 4) (Fin 1) (Fin 2)
   \<and> KawaseBlurMaterial_setSize (Fin 2) (Fin 4) blur0
       = Inr (blur0\<lparr>uniforms := (uniforms blur0)
                \<lparr>texelSize := Vector4 (Fin (1 / 2)) (Fin (1 / 4)) (Fin (1 / 4)) (Fin (1 / 8))\<rparr>\<rparr>)
   \<and> KawaseBlurMaterial_setSize (Fin 2) (Fin 4) blur0
       \<noteq> Inr (KawaseBlurMaterial_setTexelSize (Fin 2) (Fin 4) blur0)"
  by (simp add: KawaseBlurMaterial_setSize_def KawaseBlurMaterial_setTexelSize_def Let_def
        js_div_examples js_mul_examples blur0_def KawaseBlurMaterial_new_def Vector4_new_def)

text \<open>
  Claim C10, amended. Each deprecated method the claim lists, \<open>setTexelSize\<close> apart, has
  the effect and the result of the property accessor it stands for, on every value.
  \<open>setTexelSize\<close> has no accessor; its replacement \<open>setSize(w, h)\<close> does what
  \<open>setTexelSize(1/w, 1/h)\<close> does.
\<close>

theorem deprecated_methods_are_the_accessors:
  "MaskMaterial_setStrength n m = MaskMaterial_set_strength n m
   \<and> MaskMaterial_getStrength m = MaskMaterial_get_strength m
   \<and> MaskMaterial_setInverted i m = MaskMaterial_set_inverted i m
   \<and> MaskMaterial_isInverted m = MaskMaterial_get_inverted m
   \<and> MaskMaterial_setMaskTexture t m = MaskMaterial_set_maskTexture t m
   \<and> MaskMaterial_setColorChannel c m = MaskMaterial_set_colorChannel c m
   \<and> MaskMaterial_setMaskFunction f m = MaskMaterial_set_maskFunction f m
   \<and> MaskMaterial_setInputBuffer b m = MaskMaterial_set_inputBuffer b m
   \<and> KawaseBlurMaterial_setInputBuffer b k = KawaseBlurMaterial_set_inputBuffer b k
   \<and> KawaseBlurMaterial_setScale n k = KawaseBlurMaterial_set_scale n k
   \<and> KawaseBlurMaterial_getScale k = KawaseBlurMaterial_get_scale k
   \<and> KawaseBlurMaterial_setKernel n k = KawaseBlurMaterial_set_kernel n k
   \<and> KawaseBlurMaterial_setSize w h k
       = Inr (KawaseBlurMaterial_setTexelSize (js_div (Fin 1) w) (js_div (Fin 1) h) k)"
  by (simp add: mask_defs blur_defs Let_def)

section \<open>The merged shader\<close>

lemma mainImage_composition: "mainImage es c = composition es c"
  by (induction es rule: rev_induct) (simp_all add: mainImage_def composition_def)

lemma mainImage_Cons: "mainImage (e # es) c = mainImage es (mainImage [e] c)"
  by (simp add: mainImage_def)

lemma mainImage_sequentialPasses: "mainImage es c = sequentialPasses es c"
proof (induction es arbitrary: c)
  case Nil
  show ?case by (simp add: mainImage_def)
next
  case (Cons e es)
  have "mainImage (e # es) c = mainImage es (mainImage [e] c)" by (rule mainImage_Cons)
  also have "\<dots> = sequentialPasses es (mainImage [e] c)" by (rule Cons.IH)
  finally show ?case by simp
qed

lemma scenario_B_colour:
  "writeColor (mainImage [halveEffect, addTenthEffect] (Color 1 1 1)) = Color 0.6 0.6 0.6"
  by (simp add: mainImage_def applyEffect_def halveEffect_def addTenthEffect_def
        replaceBlend_def writeColor_def clamp01_def)

lemma scenario_B_compatible: "compatible [halveEffect, addTenthEffect]"
  by (simp add: compatible_def halveEffect_def addTenthEffect_def)

text \<open>
  Claim C1. For a non-empty list of compatible effects the merge succeeds, and the main
  function of the merged shader maps every colour to what the composition of the stages
  in list order maps it to (stage N outermost), which is also what the effects give when
  run as separate passes one after the other. Merging the effect that multiplies by 0.5
  and the effect that adds 0.1, in this order, maps white (1, 1, 1) to (0.6, 0.6, 0.6)
  after clamping.
\<close>

theorem merged_shader_is_composition:
  assumes "es \<noteq> []" and "compatible es"
  shows "(\<exists>prog. EffectPass_merge es = Inr prog
            \<and> program_main prog c = composition es c
            \<and> program_main prog c = sequentialPasses es c)
     \<and> (\<exists>prog. EffectPass_merge [halveEffect, addTenthEffect] = Inr prog
            \<and> writeColor (program_main prog (Color 1 1 1)) = Color 0.6 0.6 0.6)"
proof
  show "\<exists>prog. EffectPass_merge es = Inr prog
            \<and> program_main prog c = composition es c
            \<and> program_main prog c = sequentialPasses es c"
    using assms
    by (simp add: EffectPass_merge_def mainImage_composition [symmetric]
          mainImage_sequentialPasses [symmetric])
next
  show "\<exists>prog. EffectPass_merge [halveEffect, addTenthEffect] = Inr prog
            \<and> writeColor (program_main prog (Color 1 1 1)) = Color 0.6 0.6 0.6"
    using scenario_B_colour by (simp add: EffectPass_merge_def scenario_B_compatible)
qed

theorem merged_shader_is_composition_witness:
  "[halveEffect, addTenthEffect] \<noteq> [] \<and> compatible [halveEffect, addTenthEffect]
   \<and> (\<exists>prog. EffectPass_merge [halveEffect, addTenthEffect] = Inr prog
         \<and> program_main prog (Color 1 1 1) = Color (1 / 2 + 1 / 10) (1 / 2 + 1 / 10) (1 / 2 + 1 / 10)
         \<and> composition [halveEffect, addTenthEffect] (Color 1 1 1) = program_main prog (Color 1 1 1)
         \<and> sequentialPasses [halveEffect, addTenthEffect] (Color 1 1 1)
             = program_main prog (Color 1 1 1))"
proof -
  have ne: "[halveEffect, addTenthEffect] \<noteq> []" by simp
  have m: "mainImage [halveEffect, addTenthEffect] (Color 1 1 1)
             = Color (1 / 2 + 1 / 10) (1 / 2 + 1 / 10) (1 / 2 + 1 / 10)"
    by (simp add: mainImage_def applyEffect_def halveEffect_def addTenthEffect_def
          replaceBlend_def)
  from merged_shader_is_composition [OF ne scenario_B_compatible, of "Color 1 1 1"]
  obtain prog where p: "EffectPass_merge [halveEffect, addTenthEffect] = Inr prog"
    and c: "program_main prog (Color 1 1 1) = composition [halveEffect, addTenthEffect] (Color 1 1 1)"
    and s: "program_main prog (Color 1 1 1)
              = sequentialPasses [halveEffect, addTenthEffect] (Color 1 1 1)"
    by blast
  from p have "program_main prog = mainImage [halveEffect, addTenthEffect]"
    by (auto simp: EffectPass_merge_def split: if_splits)
  with m have "program_main prog (Color 1 1 1)
                 = Color (1 / 2 + 1 / 10) (1 / 2 + 1 / 10) (1 / 2 + 1 / 10)"
    by simp
  with p c s ne scenario_B_compatible show ?thesis by simp
qed

section \<open>The frame of the composer\<close>

lemma Pass_error_ConfigurationError: "Pass_error p = Some e \<Longrightarrow> e = ConfigurationError"
  by (auto simp: Pass_error_def EffectPass_merge_def split: option.splits sum.splits if_splits)

lemma Pass_error_empty: "effects p = Some [] \<Longrightarrow> Pass_error p = Some ConfigurationError"
  by (simp add: Pass_error_def EffectPass_merge_def)

lemma Pass_error_valid: "validPass p \<Longrightarrow> Pass_error p = None"
  by (auto simp: Pass_error_def validPass_def EffectPass_merge_def split: option.splits)

lemma execute_empty_pass:
  "p \<in> set ps \<Longrightarrow> enabled p \<Longrightarrow> effects p = Some [] \<Longrightarrow>
   fst (execute ps cur alt) = Some ConfigurationError"
proof (induction ps arbitrary: cur alt)
  case Nil
  then show ?case by simp
next
  case (Cons q ps)
  show ?case
  proof (cases "q = p")
    case True
    with Cons.prems show ?thesis by (simp add: Pass_error_empty)
  next
    case False
    with Cons.prems have "p \<in> set ps" by simp
    then have rest: "\<And>c a. fst (execute ps c a) = Some ConfigurationError"
      using Cons.IH Cons.prems by blast
    show ?thesis
    proof (cases "Pass_error q")
      case None
      then show ?thesis by (simp add: Let_def split_beta rest)
    next
      case (Some e)
      then have "e = ConfigurationError" by (rule Pass_error_ConfigurationError)
      with Some show ?thesis by (simp add: rest)
    qed
  qed
qed

lemma execute_valid:
  "validConfiguration ps \<Longrightarrow> fst (execute ps cur alt) = None"
proof (induction ps arbitrary: cur alt)
  case Nil
  then show ?case by simp
next
  case (Cons p ps)
  show ?case
  proof (cases "enabled p")
    case False
    with Cons show ?thesis by (simp add: validConfiguration_def)
  next
    case True
    with Cons.prems have vp: "validPass p" and vps: "validConfiguration ps"
      by (simp_all add: validConfiguration_def)
    from True vp Cons.IH [OF vps] show ?thesis
      by (simp add: Let_def split_beta Pass_error_valid)
  qed
qed

lemma execute_composer0: "execute (passes composer0) 10 11 = (None, trace0, 10, 11)"
  by (simp add: composer0_def trace0_def scenePass_def effectPass_def lutPass_def
        outputPass_def Pass_error_def EffectPass_merge_def compatible_def
        halveEffect_def addTenthEffect_def Let_def)

lemma validConfiguration_composer0: "validConfiguration (passes composer0)"
  by (simp add: validConfiguration_def validPass_def composer0_def scenePass_def
        effectPass_def lutPass_def outputPass_def compatible_def
        halveEffect_def addTenthEffect_def)

text \<open>
  Claim C4. Merging an empty effect list is a \<open>ConfigurationError\<close>. When an enabled
  \<open>EffectPass\<close> of the composer has no effects, \<open>render()\<close> reports a
  \<open>ConfigurationError\<close> and leaves the composer as it was; once the pass list is valid,
  the next \<open>render()\<close> succeeds.
\<close>

theorem empty_effect_pass_is_configuration_error:
  assumes "p \<in> set (passes c)" and "enabled p" and "effects p = Some []"
  shows "EffectPass_merge [] = Inl ConfigurationError
     \<and> render c = (Inl ConfigurationError, c)
     \<and> (validConfiguration ps' \<longrightarrow>
          (\<exists>tr c'. render (snd (render c)\<lparr>passes := ps'\<rparr>) = (Inr tr, c')))"
proof -
  have e: "fst (execute (passes c) (currentBuffer c) (alternateBuffer c))
             = Some ConfigurationError"
    using assms by (rule execute_empty_pass)
  have r: "render c = (Inl ConfigurationError, c)"
    using e by (simp add: render_def split_beta)
  have "\<exists>tr c'. render (c\<lparr>passes := ps'\<rparr>) = (Inr tr, c')" if v: "validConfiguration ps'"
    using execute_valid [OF v, of "currentBuffer c" "alternateBuffer c"]
    by (simp add: render_def split_beta)
  with r show ?thesis by (simp add: EffectPass_merge_def)
qed

theorem empty_effect_pass_is_configuration_error_witness:
  "emptyPass \<in> set (passes composerD) \<and> enabled emptyPass \<and> effects emptyPass = Some []
   \<and> render composerD = (Inl ConfigurationError, composerD)
   \<and> validConfiguration (passes composer0)
   \<and> (\<exists>tr c'. render (composerD\<lparr>passes := passes composer0\<rparr>) = (Inr tr, c'))"
proof -
  have a: "emptyPass \<in> set (passes composerD)" by (simp add: composerD_def)
  have b: "enabled emptyPass" by (simp add: emptyPass_def)
  have c: "effects emptyPass = Some []" by (simp add: emptyPass_def)
  note inst = empty_effect_pass_is_configuration_error [OF a b c, of "passes composer0"]
  have r: "render composerD = (Inl ConfigurationError, composerD)"
    by (rule inst [THEN conjunct2, THEN conjunct1])
  have "\<exists>tr c'. render (snd (render composerD)\<lparr>passes := passes composer0\<rparr>) = (Inr tr, c')"
    by (rule inst [THEN conjunct2, THEN conjunct2, THEN mp, OF validConfiguration_composer0])
  then have s: "\<exists>tr c'. render (composerD\<lparr>passes := passes composer0\<rparr>) = (Inr tr, c')"
    unfolding r snd_conv .
  from a b c r s validConfiguration_composer0 show ?thesis by simp
qed

lemma execute_no_invocation:
  "execute ps cur alt = (r, [], c, a) \<Longrightarrow> c = cur \<and> a = alt"
proof (induction ps)
  case Nil
  then show ?case by simp
next
  case (Cons p ps)
  then show ?case
    by (auto simp: Let_def split: if_splits option.splits prod.splits)
qed

text \<open>
  Claim C5. During a frame that starts with two different ping-pong buffers, whether it
  ends normally or with an error, the current input is always one of the two and the
  alternate the other one; a pass that needs a swap (it has no in-place support) never
  writes the buffer it reads, and the buffer that is current after it is not the one it
  read; the buffer that is current when the frame ends is the one the last invocation
  left.
\<close>

theorem ping_pong_invariant:
  assumes "execute ps ping pong = (r, tr, c, a)" and "ping \<noteq> pong"
  shows "((c = ping \<and> a = pong) \<or> (c = pong \<and> a = ping))
   \<and> (\<forall>inv \<in> set tr. reads inv \<in> {ping, pong} \<and> nextInput inv \<in> {ping, pong}
         \<and> (needsSwap (invoked inv) \<longrightarrow>
               writes inv \<noteq> Buffer (reads inv) \<and> nextInput inv \<noteq> reads inv))
   \<and> (tr \<noteq> [] \<longrightarrow> nextInput (last tr) = c)"
  using assms
proof (induction ps arbitrary: ping pong tr)
  case Nil
  then show ?case by simp
next
  case (Cons p ps)
  show ?case
  proof (cases "enabled p")
    case False
    with Cons.prems have "execute ps ping pong = (r, tr, c, a)" by simp
    from Cons.IH [OF this Cons.prems(2)] show ?thesis .
  next
    case True
    show ?thesis
    proof (cases "Pass_error p")
      case (Some e)
      with Cons.prems(1) True show ?thesis by simp
    next
      case None
      define cur' where "cur' = (if needsSwap p then pong else ping)"
      define alt' where "alt' = (if needsSwap p then ping else pong)"
      define out where "out = (if \<not> list_ex enabled ps then Display
                        else if needsSwap p then Buffer pong else Buffer ping)"
      from Cons.prems(1) True None obtain tr' where
        ex: "execute ps cur' alt' = (r, tr', c, a)" and
        tr: "tr = \<lparr>invoked = p, reads = ping, writes = out, nextInput = cur'\<rparr> # tr'"
        by (auto simp: Let_def cur'_def alt'_def out_def split: prod.splits)
      have ne: "cur' \<noteq> alt'" using Cons.prems(2) by (simp add: cur'_def alt'_def)
      note ih = Cons.IH [OF ex ne]
      have sets: "{cur', alt'} = {ping, pong}" by (auto simp: cur'_def alt'_def)
      have hd: "needsSwap p \<longrightarrow> out \<noteq> Buffer ping \<and> cur' \<noteq> ping"
        using Cons.prems(2) by (auto simp: out_def cur'_def)
      have c_nil: "tr' = [] \<Longrightarrow> c = cur'" using ex execute_no_invocation by blast
      show ?thesis
        using ih hd sets Cons.prems(2) unfolding tr
        apply (intro conjI)
          apply (auto simp: cur'_def alt'_def split: if_splits)[1]
         apply (auto simp: cur'_def alt'_def split: if_splits)[1]
        apply (cases "tr' = []")
         apply (simp add: c_nil)
        apply simp
        done
    qed
  qed
qed

theorem ping_pong_invariant_witness:
  "execute (passes composer0) 10 11 = (None, trace0, 10, 11) \<and> (10 :: nat) \<noteq> 11
   \<and> list_all (\<lambda>inv. reads inv \<in> {10, 11} \<and> nextInput inv \<in> {10, 11}) trace0
   \<and> list_all (\<lambda>inv. writes inv \<noteq> Buffer (reads inv) \<and> nextInput inv \<noteq> reads inv)
        (filter (\<lambda>inv. needsSwap (invoked inv)) trace0)
   \<and> length (filter (\<lambda>inv. needsSwap (invoked inv)) trace0) = 2
   \<and> nextInput (last trace0) = 10"
proof -
  have n: "(10 :: nat) \<noteq> 11" by simp
  have l: "length (filter (\<lambda>inv. needsSwap (invoked inv)) trace0) = 2"
    by (simp add: trace0_def scenePass_def effectPass_def lutPass_def outputPass_def)
  have t: "trace0 \<noteq> []" by (simp add: trace0_def)
  from ping_pong_invariant [OF execute_composer0 n] execute_composer0 l t
  show ?thesis by (auto simp: list_all_iff)
qed

section \<open>Disposal is idempotent\<close>

lemma disposeEffects_eq:
  "disposeEffects es pool = (map forget es, fold release (concat (map allocated es)) pool)"
  by (induction es arbitrary: pool) (simp_all add: Effect_dispose_def forget_def)

lemma forget_simps: "allocated (forget e) = []" "forget (forget e) = forget e"
  by (simp_all add: forget_def)

lemma concat_map_Nil: "concat (map (\<lambda>e. []) es) = []"
  by (induction es) simp_all

lemma Pass_dispose_again:
  "Pass_dispose (fst (Pass_dispose p pool)) pool2 = (fst (Pass_dispose p pool), pool2)"
proof (cases "effects p")
  case None
  then show ?thesis by (simp add: Pass_dispose_def)
next
  case (Some es)
  then show ?thesis
    by (simp add: Pass_dispose_def disposeEffects_eq o_def forget_simps concat_map_Nil)
qed

lemma disposePasses_again:
  "disposePasses (fst (disposePasses ps pool)) pool2 = (fst (disposePasses ps pool), pool2)"
proof (induction ps arbitrary: pool pool2)
  case Nil
  show ?case by simp
next
  case (Cons p ps)
  show ?case
    by (simp add: split_beta Pass_dispose_again Cons.IH)
qed

lemma Composer_dispose_again:
  "Composer_dispose (fst (Composer_dispose c pool)) pool2 = (fst (Composer_dispose c pool), pool2)"
  by (simp add: Composer_dispose_def Let_def split_beta disposePasses_again)

lemma dispose_composer0_releases_all:
  "inUse (snd (Composer_dispose composer0 pool0)) = []
   \<and> map resources (passes (fst (Composer_dispose composer0 pool0))) = [[], [], [], []]
   \<and> owned (fst (Composer_dispose composer0 pool0)) = []"
  by (simp add: Composer_dispose_def Pass_dispose_def Effect_dispose_def release_def
        composer0_def pool0_def scenePass_def effectPass_def lutPass_def outputPass_def
        halveEffect_def addTenthEffect_def Let_def)

text \<open>
  Claim C7. Disposing of a pass, or of the composer, a second time is a no-op: the pass
  (the composer) and the pool are exactly as the first disposal left them. Disposal has
  no error outcome.
\<close>

theorem dispose_twice_is_dispose_once:
  "Pass_dispose (fst (Pass_dispose p pool)) (snd (Pass_dispose p pool)) = Pass_dispose p pool
   \<and> Composer_dispose (fst (Composer_dispose c pool)) (snd (Composer_dispose c pool))
       = Composer_dispose c pool"
  by (simp add: Pass_dispose_again Composer_dispose_again)

end
